theory Spec2Isabelle
  imports Main "HOL-Library.AList"
begin

section \<open>Attendance entries\<close>

text \<open>
  The type \<open>AttendanceEntry\<close> as the services build and read it. A timestamp is a valid
  JavaScript \<open>Date\<close>, held as its \<open>getTime()\<close> value: milliseconds since the epoch.
  An identifier is held as the string \<open>id.toString()\<close> yields. An optional string field
  is \<open>None\<close> when the property is \<open>undefined\<close> or \<open>null\<close>. The record passed to
  \<open>addAttendanceRecord\<close> has no identifier yet: its \<open>entry_id\<close> is not read.
\<close>

datatype direction = CheckIn | CheckOut

record AttendanceEntry =
  entry_id :: string
  studentDatabaseId :: "string option"
  studentId :: string
  studentName :: string
  timestamp :: int
  atype :: direction
  barcode :: "string option"
  captureMethod :: "string option"
  purpose :: "string option"
  contact :: "string option"
  library :: "string option"
  course :: "string option"
  year :: "string option"
  userType :: "string option"
  studentType :: "string option"
  level :: "string option"
  strand :: "string option"

text \<open>JavaScript truthiness of an optional string: present and not empty.\<close>

definition truthy :: "string option \<Rightarrow> bool" where
  "truthy v = (case v of None \<Rightarrow> False | Some s \<Rightarrow> s \<noteq> [])"

text \<open>\<open>id?.toString().startsWith('local_')\<close>: the placeholder test of both services.\<close>

definition isLocalId :: "string \<Rightarrow> bool" where
  "isLocalId i = (take 6 i = ''local_'')"

section \<open>Students and the envelope\<close>

text \<open>
  A property of a student object: not there, there with the value \<open>undefined\<close>, there
  with \<open>null\<close>, or there with a string. The first two read alike; a spread copies
  the last three.
\<close>

datatype jsprop = Absent | Undefined | Null | Str string

definition readProp :: "jsprop \<Rightarrow> jsprop" where
  "readProp p = (case p of Absent \<Rightarrow> Undefined | _ \<Rightarrow> p)"

text \<open>
  A student, with the properties the sync passes, the realtime ingestor and the drivers
  name; an object may carry others, which the model does not hold. \<open>s_dirty\<close> is
  \<open>_dirty\<close>, the mark of an edit made offline: \<open>None\<close> when the property is not there,
  else its truthiness.
\<close>

record Student =
  s_id :: string
  s_name :: jsprop
  s_studentId :: jsprop
  s_email :: jsprop
  s_course :: jsprop
  s_year :: jsprop
  s_department :: jsprop
  s_biometricData :: jsprop
  s_rfid :: jsprop
  s_library :: jsprop
  s_qrCode :: jsprop
  s_dirty :: "bool option"

type_synonym document = string

text \<open>\<open>OfflineData\<close> (utils/storage/types.ts); \<open>fullSyncCompleted\<close> is optional.\<close>

record OfflineData =
  students :: "Student list"
  attendanceRecords :: "AttendanceEntry list"
  documents :: "document list"
  lastSync :: "string option"
  fullSyncCompleted :: "bool option"

text \<open>
  \<open>Partial<OfflineData>\<close>: every property may be absent. It is also the shape of the
  object \<open>JSON.parse\<close> returns for the blob of the flat driver.
\<close>

record PartialData =
  p_students :: "Student list option"
  p_attendanceRecords :: "AttendanceEntry list option"
  p_documents :: "document list option"
  p_lastSync :: "string option"
  p_fullSyncCompleted :: "bool option"

text \<open>The literal both \<open>getFromLocalStorage\<close> and \<open>LocalStorageDriver.load\<close> return.\<close>

definition emptyData :: OfflineData where
  "emptyData = \<lparr>students = [], attendanceRecords = [], documents = [], lastSync = None,
     fullSyncCompleted = None\<rparr>"

datatype error = Error string

section \<open>The host environment\<close>

text \<open>
  What the JavaScript host supplies and the repository does not define: the local
  calendar fields of an instant (\<open>getFullYear\<close>, \<open>getMonth\<close>, \<open>getDate\<close>,
  \<open>getHours\<close>, \<open>getMinutes\<close>, \<open>getSeconds\<close>), \<open>Date.toISOString\<close>, the instant
  \<open>setDate(getDate() - n)\<close> moves a date to, whether \<open>localStorage\<close> exists, and the
  error \<open>localStorage.setItem\<close> throws for a value it refuses (quota): for the envelope
  under the flat driver's key, and for a driver's name under \<open>current-storage-engine\<close>.
  The functions that use them take the host as a parameter.
\<close>

record Host =
  localFields :: "int \<Rightarrow> int \<times> int \<times> int \<times> int \<times> int \<times> int"
  toISOString :: "int \<Rightarrow> string"
  minusDays :: "int \<Rightarrow> nat \<Rightarrow> int"
  hasLocalStorage :: bool
  setItemError :: "PartialData \<Rightarrow> error option"
  setEngineError :: "string \<Rightarrow> error option"

section \<open>Fuzzy merge (autoSyncService.syncSupabaseToLocal, RealtimeService)\<close>

text \<open>
  \<open>pickBetter\<close> is written twice, in \<open>syncSupabaseToLocal\<close> and in
  \<open>processAttendanceChange\<close>, with the same five tests in the same order.
\<close>

definition pickBetter :: "AttendanceEntry \<Rightarrow> AttendanceEntry \<Rightarrow> AttendanceEntry" where
  "pickBetter a b =
     (if truthy (course a) \<and> \<not> truthy (course b) then a
      else if truthy (course b) \<and> \<not> truthy (course a) then b
      else if isLocalId (entry_id a) \<and> \<not> isLocalId (entry_id b) then b
      else if isLocalId (entry_id b) \<and> \<not> isLocalId (entry_id a) then a
      else if timestamp a \<ge> timestamp b then a else b)"

text \<open>The test of \<open>deduped.find\<close>: same student, same direction, at most 10000 ms apart.\<close>

definition sameEvent :: "AttendanceEntry \<Rightarrow> AttendanceEntry \<Rightarrow> bool" where
  "sameEvent c r =
     (studentId c = studentId r \<and> atype c = atype r \<and> \<bar>timestamp c - timestamp r\<bar> \<le> 10000)"

text \<open>
  \<open>deduped[deduped.indexOf(existing)] = better\<close>, where \<open>existing\<close> is the first
  element that passes the test: the first such element is replaced, in place.
\<close>

fun replaceFirst :: "('a \<Rightarrow> bool) \<Rightarrow> ('a \<Rightarrow> 'a) \<Rightarrow> 'a list \<Rightarrow> 'a list" where
  "replaceFirst P f [] = []"
| "replaceFirst P f (x # xs) = (if P x then f x # xs else x # replaceFirst P f xs)"

definition dedupeStep :: "AttendanceEntry list \<Rightarrow> AttendanceEntry \<Rightarrow> AttendanceEntry list" where
  "dedupeStep out rec =
     (case find (\<lambda>c. sameEvent c rec) out of
        None \<Rightarrow> out @ [rec]
      | Some existing \<Rightarrow> replaceFirst (\<lambda>c. sameEvent c rec) (\<lambda>c. pickBetter c rec) out)"

definition dedupeList :: "AttendanceEntry list \<Rightarrow> AttendanceEntry list" where
  "dedupeList list = foldl dedupeStep [] list"

section \<open>Rendering\<close>

text \<open>Template literals print numbers in decimal.\<close>

fun digitChar :: "nat \<Rightarrow> char" where
  "digitChar n = ''0123456789'' ! n"

function showNat :: "nat \<Rightarrow> string" where
  "showNat n = (if n < 10 then [digitChar n] else showNat (n div 10) @ [digitChar (n mod 10)])"
  by pat_completeness auto
termination
  by (relation "measure id") auto

definition showInt :: "int \<Rightarrow> string" where
  "showInt i = (if i < 0 then CHR ''-'' # showNat (nat (- i)) else showNat (nat i))"

definition typeString :: "direction \<Rightarrow> string" where
  "typeString t = (case t of CheckIn \<Rightarrow> ''check-in'' | CheckOut \<Rightarrow> ''check-out'')"

section \<open>Exact-key deduplication (utils/deduplicateAttendance.ts)\<close>

definition timestampKey :: "Host \<Rightarrow> int \<Rightarrow> string" where
  "timestampKey host t =
     (case localFields host t of (y, mo, d, h, mi, s) \<Rightarrow>
        showInt y @ ''-'' @ showInt mo @ ''-'' @ showInt d @ ''-'' @
        showInt h @ ''-'' @ showInt mi @ ''-'' @ showInt s)"

definition entryKey :: "Host \<Rightarrow> AttendanceEntry \<Rightarrow> string" where
  "entryKey host record =
     studentId record @ ''|'' @ typeString (atype record) @ ''|'' @
     timestampKey host (timestamp record)"

text \<open>
  \<open>[...records].sort((a, b) => b.time - a.time)\<close>: \<open>Array.prototype.sort\<close> is stable,
  so the result is the stable sort by descending timestamp.
\<close>

definition newestFirst :: "AttendanceEntry list \<Rightarrow> AttendanceEntry list" where
  "newestFirst records = sort_key (\<lambda>r. - timestamp r) records"

text \<open>The body of the \<open>for\<close> loop, on the pair of \<open>seen\<close> and \<open>deduped\<close>.\<close>

definition keepUnseen ::
  "Host \<Rightarrow> string set \<times> AttendanceEntry list \<Rightarrow> AttendanceEntry \<Rightarrow>
     string set \<times> AttendanceEntry list" where
  "keepUnseen host st record =
     (case st of (seen, deduped) \<Rightarrow>
        if entryKey host record \<notin> seen
        then (insert (entryKey host record) seen, deduped @ [record])
        else (seen, deduped))"

definition deduplicateAttendance :: "Host \<Rightarrow> AttendanceEntry list \<Rightarrow> AttendanceEntry list" where
  "deduplicateAttendance host records =
     newestFirst (snd (foldl (keepUnseen host) ({}, []) (newestFirst records)))"

text \<open>
  The entries the loop keeps, as a recursion on the sorted list: the first entry of each
  key that is not in \<open>seen\<close>. Used to reason about the loop.
\<close>

fun firstOfKey :: "('a \<Rightarrow> 'k) \<Rightarrow> 'k set \<Rightarrow> 'a list \<Rightarrow> 'a list" where
  "firstOfKey k seen [] = []"
| "firstOfKey k seen (x # xs) =
     (if k x \<in> seen then firstOfKey k seen xs else x # firstOfKey k (insert (k x) seen) xs)"

section \<open>Storage drivers (utils/storage/types.ts)\<close>

text \<open>
  The contract \<open>StorageDriver\<close>, over the persisted state \<open>'w\<close> of the host (the
  database file, the object stores, the blob). \<open>load\<close> is a read: it returns the envelope
  or the error it throws, and leaves the state. \<open>save\<close> and \<open>clear\<close> return the error
  they throw, if any, and the state they leave.
\<close>

record 'w StorageDriver =
  dname :: string
  isAvailable :: "'w \<Rightarrow> bool"
  load :: "'w \<Rightarrow> error + OfflineData"
  save :: "PartialData \<Rightarrow> 'w \<Rightarrow> error option \<times> 'w"
  clear :: "'w \<Rightarrow> error option \<times> 'w"

section \<open>The flat fallback driver (LocalStorageDriver)\<close>

text \<open>
  What \<open>localStorage.getItem(STORAGE_KEY)\<close> holds: nothing (or the empty string, which
  \<open>if (stored)\<close> treats alike), a string \<open>JSON.parse\<close> rejects, or a serialized object.
  A \<open>Date\<close> is written as its ISO string and read back as the same instant.
\<close>

datatype lsItem = NoItem | Unparsable | Parsed PartialData

definition orEmpty :: "'a list option \<Rightarrow> 'a list" where
  "orEmpty v = (case v of None \<Rightarrow> [] | Some xs \<Rightarrow> xs)"

text \<open>
  \<open>load\<close> spreads the parsed object and maps its two lists, or returns the empty
  envelope; an error of \<open>JSON.parse\<close> is caught. A blob without \<open>documents\<close> loads with
  \<open>documents\<close> undefined, which every reader takes for the empty list.
\<close>

definition localStorage_load :: "lsItem \<Rightarrow> error + OfflineData" where
  "localStorage_load item =
     (case item of
        Parsed parsed \<Rightarrow>
          Inr \<lparr>students = orEmpty (p_students parsed),
               attendanceRecords = orEmpty (p_attendanceRecords parsed),
               documents = orEmpty (p_documents parsed),
               lastSync = p_lastSync parsed,
               fullSyncCompleted = p_fullSyncCompleted parsed\<rparr>
      | _ \<Rightarrow> Inr emptyData)"

text \<open>
  \<open>Array.from(new Map(entries).values())\<close>: a key set again keeps its place and takes the
  new value; a new key goes to the end.
\<close>

definition newMap :: "('k \<times> 'v) list \<Rightarrow> ('k \<times> 'v) list" where
  "newMap entries = foldl (\<lambda>m (k, v). AList.update k v m) [] entries"

definition mapValues :: "('k \<times> 'v) list \<Rightarrow> 'v list" where
  "mapValues m = map snd m"

text \<open>\<open>JSON.stringify\<close> leaves out a property whose value is \<open>undefined\<close>.\<close>

definition jsonProp :: "jsprop \<Rightarrow> jsprop" where
  "jsonProp p = (case p of Undefined \<Rightarrow> Absent | _ \<Rightarrow> p)"

definition jsonStudent :: "Student \<Rightarrow> Student" where
  "jsonStudent s =
     s\<lparr>s_name := jsonProp (s_name s), s_studentId := jsonProp (s_studentId s),
       s_email := jsonProp (s_email s), s_course := jsonProp (s_course s),
       s_year := jsonProp (s_year s), s_department := jsonProp (s_department s),
       s_biometricData := jsonProp (s_biometricData s), s_rfid := jsonProp (s_rfid s),
       s_library := jsonProp (s_library s), s_qrCode := jsonProp (s_qrCode s)\<rparr>"

definition compositeKey :: "Host \<Rightarrow> AttendanceEntry \<Rightarrow> string" where
  "compositeKey host r =
     studentId r @ ''-'' @ toISOString host (timestamp r) @ ''-'' @ typeString (atype r)"

definition localStorage_save :: "Host \<Rightarrow> PartialData \<Rightarrow> lsItem \<Rightarrow> error option \<times> lsItem" where
  "localStorage_save host data item =
     (case localStorage_load item of
        Inl e \<Rightarrow> (Some e, item)
      | Inr existing \<Rightarrow>
          let allAttendance = attendanceRecords existing @ orEmpty (p_attendanceRecords data);
              allStudents = students existing @ orEmpty (p_students data);
              uniqueAttendance = mapValues (newMap (map (\<lambda>r. (compositeKey host r, r)) allAttendance));
              uniqueStudents =
                mapValues (newMap (map (\<lambda>s. (readProp (s_studentId s), s)) allStudents));
              updated =
                \<lparr>p_students = Some (map jsonStudent uniqueStudents),
                 p_attendanceRecords = Some uniqueAttendance,
                 p_documents = Some (case p_documents data of Some d \<Rightarrow> d | None \<Rightarrow> documents existing),
                 p_lastSync =
                   (if truthy (p_lastSync data) then p_lastSync data
                    else if truthy (lastSync existing) then lastSync existing else None),
                 p_fullSyncCompleted = None\<rparr>
          in case setItemError host updated of
               Some e \<Rightarrow> (Some e, item)
             | None \<Rightarrow> (None, Parsed updated))"

definition localStorage_clear :: "lsItem \<Rightarrow> error option \<times> lsItem" where
  "localStorage_clear item = (None, NoItem)"

definition localStorageDriver :: "Host \<Rightarrow> lsItem StorageDriver" where
  "localStorageDriver host =
     \<lparr>dname = ''localstorage'', isAvailable = (\<lambda>_. hasLocalStorage host),
      load = localStorage_load, save = localStorage_save host, clear = localStorage_clear\<rparr>"

section \<open>The Storage Manager (utils/storage/manager.ts)\<close>

text \<open>
  \<open>currentDriver\<close> is a reference to an element of \<open>drivers\<close>; it is held as the index
  \<open>drivers.indexOf\<close> gives. \<open>engineName\<close> is what \<open>init\<close> wrote under
  \<open>current-storage-engine\<close> in \<open>localStorage\<close>, for the user interface; only \<open>init\<close>
  writes it, and it is kept with the manager. The list of drivers is a parameter: the
  manager sees them through the contract only. The state of the storage layer is the
  manager and the persisted state of the drivers.
\<close>

record StorageManager =
  currentDriver :: "nat option"
  initialized :: bool
  engineName :: "string option"

type_synonym 'w storage = "StorageManager \<times> 'w"

text \<open>
  The \<open>for\<close> loop of \<open>init\<close>, from the driver of index \<open>i\<close> on; the result says whether
  the loop returned (\<open>True\<close>) or ran to its end. A driver that loads is adopted before
  its name is written: when \<open>setItem\<close> throws, the \<open>catch\<close> goes on to the next driver
  and \<open>currentDriver\<close> and \<open>initialized\<close> stay set. The notice \<open>init\<close> shows after the
  write is left out (\<open>toast\<close> is taken not to throw).
\<close>

fun initLoop ::
  "Host \<Rightarrow> 'w \<Rightarrow> 'w StorageDriver list \<Rightarrow> nat \<Rightarrow> StorageManager \<Rightarrow> bool \<times> StorageManager" where
  "initLoop host w [] i m = (False, m)"
| "initLoop host w (driver # rest) i m =
     (if isAvailable driver w
      then (case load driver w of
              Inl _ \<Rightarrow> initLoop host w rest (Suc i) m
            | Inr _ \<Rightarrow>
                if hasLocalStorage host
                then (case setEngineError host (dname driver) of
                        Some _ \<Rightarrow>
                          initLoop host w rest (Suc i)
                            (m\<lparr>currentDriver := Some i, initialized := True\<rparr>)
                      | None \<Rightarrow>
                          (True, m\<lparr>currentDriver := Some i, initialized := True,
                                   engineName := Some (dname driver)\<rparr>))
                else (True, m\<lparr>currentDriver := Some i, initialized := True\<rparr>))
      else initLoop host w rest (Suc i) m)"

definition manager_init ::
  "Host \<Rightarrow> 'w StorageDriver list \<Rightarrow> 'w storage \<Rightarrow> error option \<times> 'w storage" where
  "manager_init host drivers st =
     (case st of (m, w) \<Rightarrow>
        if initialized m then (None, st)
        else (case initLoop host w drivers 0 m of
                (True, m1) \<Rightarrow> (None, (m1, w))
              | (False, m1) \<Rightarrow> (Some (Error ''No storage driver available''), (m1, w))))"

text \<open>\<open>if (!this.currentDriver) await this.init()\<close>, the first statement of each operation.\<close>

definition ensureInit ::
  "Host \<Rightarrow> 'w StorageDriver list \<Rightarrow> 'w storage \<Rightarrow> error option \<times> 'w storage" where
  "ensureInit host drivers st =
     (if currentDriver (fst st) = None then manager_init host drivers st else (None, st))"

text \<open>The fallback loop of \<open>load\<close>: the drivers after the failed one, from index \<open>i\<close> on.\<close>

fun loadFallback :: "'w \<Rightarrow> 'w StorageDriver list \<Rightarrow> nat \<Rightarrow> (nat \<times> OfflineData) option" where
  "loadFallback w [] i = None"
| "loadFallback w (fallbackDriver # rest) i =
     (if isAvailable fallbackDriver w
      then (case load fallbackDriver w of
              Inr data \<Rightarrow> Some (i, data)
            | Inl _ \<Rightarrow> loadFallback w rest (Suc i))
      else loadFallback w rest (Suc i))"

definition manager_load ::
  "Host \<Rightarrow> 'w StorageDriver list \<Rightarrow> 'w storage \<Rightarrow> (error + OfflineData) \<times> 'w storage" where
  "manager_load host drivers st =
     (case ensureInit host drivers st of
        (Some e, st1) \<Rightarrow> (Inl e, st1)
      | (None, (m, w)) \<Rightarrow>
          (case currentDriver m of
             None \<Rightarrow> (Inl (Error ''No storage driver initialized''), (m, w))
           | Some i \<Rightarrow>
               (case load (drivers ! i) w of
                  Inr data \<Rightarrow> (Inr data, (m, w))
                | Inl e \<Rightarrow>
                    (case loadFallback w (drop (Suc i) drivers) (Suc i) of
                       Some (j, data) \<Rightarrow> (Inr data, (m\<lparr>currentDriver := Some j\<rparr>, w))
                     | None \<Rightarrow> (Inl e, (m, w))))))"

text \<open>The fallback loop of \<open>save\<close>; a failed attempt may leave its own changes.\<close>

fun saveFallback ::
  "PartialData \<Rightarrow> 'w StorageDriver list \<Rightarrow> nat \<Rightarrow> 'w \<Rightarrow> nat option \<times> 'w" where
  "saveFallback data [] i w = (None, w)"
| "saveFallback data (fallbackDriver # rest) i w =
     (if isAvailable fallbackDriver w
      then (case save fallbackDriver data w of
              (None, w') \<Rightarrow> (Some i, w')
            | (Some _, w') \<Rightarrow> saveFallback data rest (Suc i) w')
      else saveFallback data rest (Suc i) w)"

definition manager_save ::
  "Host \<Rightarrow> 'w StorageDriver list \<Rightarrow> PartialData \<Rightarrow> 'w storage \<Rightarrow> error option \<times> 'w storage" where
  "manager_save host drivers data st =
     (case ensureInit host drivers st of
        (Some e, st1) \<Rightarrow> (Some e, st1)
      | (None, (m, w)) \<Rightarrow>
          (case currentDriver m of
             None \<Rightarrow> (Some (Error ''No storage driver initialized''), (m, w))
           | Some i \<Rightarrow>
               (case save (drivers ! i) data w of
                  (None, w1) \<Rightarrow> (None, (m, w1))
                | (Some e, w1) \<Rightarrow>
                    (case saveFallback data (drop (Suc i) drivers) (Suc i) w1 of
                       (Some j, w2) \<Rightarrow> (None, (m\<lparr>currentDriver := Some j\<rparr>, w2))
                     | (None, w2) \<Rightarrow> (Some e, (m, w2))))))"

text \<open>\<open>clear\<close> calls the current driver and nothing else.\<close>

definition manager_clear ::
  "Host \<Rightarrow> 'w StorageDriver list \<Rightarrow> 'w storage \<Rightarrow> error option \<times> 'w storage" where
  "manager_clear host drivers st =
     (case ensureInit host drivers st of
        (Some e, st1) \<Rightarrow> (Some e, st1)
      | (None, (m, w)) \<Rightarrow>
          (case currentDriver m of
             None \<Rightarrow> (Some (Error ''No storage driver initialized''), (m, w))
           | Some i \<Rightarrow> (case clear (drivers ! i) w of (r, w1) \<Rightarrow> (r, (m, w1)))))"

section \<open>The public wrappers (utils/offlineStorage.ts)\<close>

text \<open>\<open>saveToLocalStorage\<close> and \<open>clearLocalStorage\<close> log the error and throw it again.\<close>

definition saveToLocalStorage ::
  "Host \<Rightarrow> 'w StorageDriver list \<Rightarrow> PartialData \<Rightarrow> 'w storage \<Rightarrow> error option \<times> 'w storage" where
  "saveToLocalStorage host drivers data st = manager_save host drivers data st"

definition clearLocalStorage ::
  "Host \<Rightarrow> 'w StorageDriver list \<Rightarrow> 'w storage \<Rightarrow> error option \<times> 'w storage" where
  "clearLocalStorage host drivers st = manager_clear host drivers st"

text \<open>
  \<open>getFromLocalStorage\<close> returns what \<open>storageManager.load()\<close> returns, and the empty
  envelope when it throws. The result is a sum, as for every operation that a caller
  awaits inside a \<open>try\<close>; \<open>Inl\<close> would be an error thrown to the caller.
\<close>

definition getFromLocalStorage ::
  "Host \<Rightarrow> 'w StorageDriver list \<Rightarrow> 'w storage \<Rightarrow> (error + OfflineData) \<times> 'w storage" where
  "getFromLocalStorage host drivers st =
     (case manager_load host drivers st of
        (Inr data, st1) \<Rightarrow> (Inr data, st1)
      | (Inl e, st1) \<Rightarrow> (Inr emptyData, st1))"

section \<open>The remote backend\<close>

text \<open>
  Rows of the two remote tables, and what a query resolves to: \<open>{ data, error }\<close>. The
  backend itself is outside the repository; each pass takes its answers as a parameter.
\<close>

record StudentRow =
  sr_id :: string
  sr_name :: "string option"
  sr_student_id :: "string option"
  sr_email :: "string option"
  sr_course :: "string option"
  sr_biometric_data :: "string option"
  sr_rfid :: "string option"
  sr_library :: "string option"

record AttendanceRow =
  ar_id :: string
  ar_student_database_id :: "string option"
  ar_student_id :: string
  ar_student_name :: string
  ar_timestamp :: int
  ar_type :: "direction option"
  ar_barcode :: "string option"
  ar_method :: "string option"
  ar_purpose :: "string option"
  ar_contact :: "string option"
  ar_library :: "string option"
  ar_course :: "string option"
  ar_year :: "string option"
  ar_user_type :: "string option"
  ar_student_type :: "string option"
  ar_level :: "string option"
  ar_strand :: "string option"

datatype 'a response = Response (rdata: "'a list option") (rerror: "error option")

text \<open>\<open>await Promise.all([students query, attendance query])\<close>: rejected, or both resolved.\<close>

datatype fetched = Rejected error | Resolved "StudentRow response" "AttendanceRow response"

text \<open>
  The two queries of the pull pass, by their \<open>gte\<close> filters on the timestamp: \<open>None\<close> is
  a query with no lower bound.
\<close>

record PullRequest =
  studentsSince :: "int option"
  attendanceSince :: "int option"

section \<open>The pull pass (AutoSyncService.syncSupabaseToLocal)\<close>

text \<open>The regular expression of \<open>isUUID\<close>: 8-4-4-4-12 hexadecimal digits, either case.\<close>

definition isHex :: "char \<Rightarrow> bool" where
  "isHex c = (c \<in> set ''0123456789abcdefABCDEF'')"

definition isUUID :: "string \<Rightarrow> bool" where
  "isUUID v =
     (map (\<lambda>c. if isHex c then CHR ''x'' else if c = CHR ''-'' then CHR ''-'' else CHR ''?'') v =
      ''xxxxxxxx-xxxx-xxxx-xxxx-xxxxxxxxxxxx'')"

text \<open>\<open>v || d\<close> on an optional string.\<close>

definition orDefault :: "string option \<Rightarrow> string \<Rightarrow> string option" where
  "orDefault v d = (if truthy v then v else Some d)"

text \<open>
  A column of a row is \<open>null\<close> or a string. The student the pass builds from a row has
  eight properties and no others.
\<close>

definition ofColumn :: "string option \<Rightarrow> jsprop" where
  "ofColumn v = (case v of None \<Rightarrow> Null | Some x \<Rightarrow> Str x)"

definition columnOr :: "string option \<Rightarrow> string \<Rightarrow> jsprop" where
  "columnOr v d = (case v of None \<Rightarrow> Str d | Some x \<Rightarrow> if x \<noteq> [] then Str x else Str d)"

definition studentOfRow :: "StudentRow \<Rightarrow> Student" where
  "studentOfRow s =
     \<lparr>s_id = sr_id s, s_name = ofColumn (sr_name s), s_studentId = ofColumn (sr_student_id s),
      s_email = columnOr (sr_email s) '''', s_course = Absent, s_year = Absent,
      s_department = ofColumn (sr_course s),
      s_biometricData = columnOr (sr_biometric_data s) '''',
      s_rfid = columnOr (sr_rfid s) '''',
      s_library = columnOr (sr_library s) ''notre-dame'', s_qrCode = Absent,
      s_dirty = None\<rparr>"

definition entryOfRow :: "AttendanceRow \<Rightarrow> AttendanceEntry" where
  "entryOfRow r =
     \<lparr>entry_id = ar_id r, studentDatabaseId = ar_student_database_id r,
      studentId = ar_student_id r, studentName = ar_student_name r,
      timestamp = ar_timestamp r,
      atype = (case ar_type r of Some t \<Rightarrow> t | None \<Rightarrow> CheckIn),
      barcode = ar_barcode r, captureMethod = ar_method r, purpose = ar_purpose r,
      contact = ar_contact r, library = orDefault (ar_library r) ''notre-dame'',
      course = ar_course r, year = ar_year r, userType = ar_user_type r,
      studentType = ar_student_type r, level = ar_level r, strand = None\<rparr>"

text \<open>The record \<open>addAttendanceRecord\<close> builds from the inserted row: it also copies \<open>strand\<close>.\<close>

definition entryOfInserted :: "AttendanceRow \<Rightarrow> AttendanceEntry" where
  "entryOfInserted r = (entryOfRow r)\<lparr>strand := ar_strand r\<rparr>"

text \<open>
  \<open>{ ...s, ...dirty }\<close>: every property the local student has, whatever its value,
  replaces the server's; a property it does not have leaves the server's.
\<close>

definition spread :: "jsprop \<Rightarrow> jsprop \<Rightarrow> jsprop" where
  "spread a b = (case b of Absent \<Rightarrow> a | _ \<Rightarrow> b)"

definition overlay :: "Student \<Rightarrow> Student \<Rightarrow> Student" where
  "overlay s dirty =
     \<lparr>s_id = s_id dirty, s_name = spread (s_name s) (s_name dirty),
      s_studentId = spread (s_studentId s) (s_studentId dirty),
      s_email = spread (s_email s) (s_email dirty),
      s_course = spread (s_course s) (s_course dirty),
      s_year = spread (s_year s) (s_year dirty),
      s_department = spread (s_department s) (s_department dirty),
      s_biometricData = spread (s_biometricData s) (s_biometricData dirty),
      s_rfid = spread (s_rfid s) (s_rfid dirty),
      s_library = spread (s_library s) (s_library dirty),
      s_qrCode = spread (s_qrCode s) (s_qrCode dirty),
      s_dirty = (case s_dirty dirty of None \<Rightarrow> s_dirty s | Some b \<Rightarrow> Some b)\<rparr>"

text \<open>Lines 368 to 384: what the pass keeps from the local envelope, and what it asks for.\<close>

definition localOnlyStudents :: "OfflineData \<Rightarrow> Student list" where
  "localOnlyStudents localData = filter (\<lambda>s. isLocalId (s_id s)) (students localData)"

definition needsFullDownload :: "OfflineData \<Rightarrow> bool" where
  "needsFullDownload localData = (fullSyncCompleted localData \<noteq> Some True)"

definition localOnlyRecords :: "Host \<Rightarrow> int \<Rightarrow> OfflineData \<Rightarrow> AttendanceEntry list" where
  "localOnlyRecords host t0 localData =
     filter (\<lambda>r. (\<not> isUUID (entry_id r) \<or> isLocalId (entry_id r)) \<and>
                 timestamp r \<ge> minusDays host t0 30)
       (attendanceRecords localData)"

definition pullRequest :: "Host \<Rightarrow> int \<Rightarrow> OfflineData \<Rightarrow> PullRequest" where
  "pullRequest host t0 localData =
     \<lparr>studentsSince = None,
      attendanceSince = (if \<not> needsFullDownload localData then Some (minusDays host t0 30) else None)\<rparr>"

text \<open>
  Lines 416 to 494: the argument of \<open>saveToLocalStorage\<close>, from the local envelope and
  the two answers. \<open>t0\<close> is the instant of \<open>new Date()\<close> at line 374, \<open>t1\<close> the one at line
  492. \<open>Object.fromEntries\<close> keeps the last of two dirty students with one identifier.
\<close>

definition pulledData ::
  "Host \<Rightarrow> int \<Rightarrow> int \<Rightarrow> OfflineData \<Rightarrow> StudentRow response \<Rightarrow> AttendanceRow response \<Rightarrow>
     PartialData" where
  "pulledData host t0 t1 localData studentsResponse attendanceResponse =
     (let serverStudents = map studentOfRow (orEmpty (rdata studentsResponse));
          serverRecords = map entryOfRow (orEmpty (rdata attendanceResponse));
          dirtyStudents =
            filter (\<lambda>s. \<not> isLocalId (s_id s) \<and> s_dirty s = Some True) (students localData);
          overlayedStudents =
            map (\<lambda>s. case find (\<lambda>d. s_id d = s_id s) (rev dirtyStudents) of
                        Some d \<Rightarrow> overlay s d
                      | None \<Rightarrow> s)
              serverStudents;
          combinedRecords = serverRecords @ localOnlyRecords host t0 localData;
          deduped = dedupeList combinedRecords;
          finalStudents =
            (if serverStudents = [] then localOnlyStudents localData
             else overlayedStudents @ localOnlyStudents localData);
          finalAttendance =
            (if serverRecords = [] then localOnlyRecords host t0 localData else deduped)
      in \<lparr>p_students = Some finalStudents, p_attendanceRecords = Some finalAttendance,
          p_documents = None, p_lastSync = Some (toISOString host t1),
          p_fullSyncCompleted = Some True\<rparr>)"

text \<open>
  What a pass did: the storage it leaves, the request it sent, the argument of the
  \<open>saveToLocalStorage\<close> it called, and the error it let out.
\<close>

record 'w PullResult =
  pr_storage :: "'w storage"
  pr_request :: "PullRequest option"
  pr_saved :: "PartialData option"
  pr_raised :: "error option"

text \<open>
  The whole body is inside \<open>try\<close>, and the \<open>catch\<close> only logs: an error of the load, of
  the fetch or of the save ends the pass and goes no further.
\<close>

definition syncSupabaseToLocal ::
  "Host \<Rightarrow> 'w StorageDriver list \<Rightarrow> int \<Rightarrow> int \<Rightarrow> (PullRequest \<Rightarrow> fetched) \<Rightarrow> 'w storage \<Rightarrow>
     'w PullResult" where
  "syncSupabaseToLocal host drivers t0 t1 remote st =
     (case getFromLocalStorage host drivers st of
        (Inl e, st1) \<Rightarrow>
          \<lparr>pr_storage = st1, pr_request = None, pr_saved = None, pr_raised = None\<rparr>
      | (Inr localData, st1) \<Rightarrow>
          (case remote (pullRequest host t0 localData) of
             Rejected e \<Rightarrow>
               \<lparr>pr_storage = st1, pr_request = Some (pullRequest host t0 localData),
                pr_saved = None, pr_raised = None\<rparr>
           | Resolved studentsResponse attendanceResponse \<Rightarrow>
               if rerror studentsResponse = None \<and> rerror attendanceResponse = None
               then (case saveToLocalStorage host drivers
                       (pulledData host t0 t1 localData studentsResponse attendanceResponse) st1 of
                       (r, st2) \<Rightarrow>
                         \<lparr>pr_storage = st2, pr_request = Some (pullRequest host t0 localData),
                          pr_saved = Some (pulledData host t0 t1 localData studentsResponse
                            attendanceResponse),
                          pr_raised = None\<rparr>)
               else \<lparr>pr_storage = st1, pr_request = Some (pullRequest host t0 localData),
                     pr_saved = None, pr_raised = None\<rparr>))"

text \<open>
  The pass saves only when \<open>Promise.all\<close> resolved and
  \<open>!studentsResponse.error && !attendanceResponse.error\<close>. This is every other outcome:
  the request rejected, or an error in the students answer or in the attendance answer.
\<close>

definition fetchFailed :: "fetched \<Rightarrow> bool" where
  "fetchFailed f =
     (case f of
        Rejected e \<Rightarrow> True
      | Resolved studentsResponse attendanceResponse \<Rightarrow>
          rerror studentsResponse \<noteq> None \<or> rerror attendanceResponse \<noteq> None)"

section \<open>The sync cycle (AutoSyncService.performSync, forceSync)\<close>

record AutoSyncService =
  lastSyncTime :: int

datatype cycle = Throttled | Ran

text \<open>
  \<open>performSync(forceSync = false)\<close>. \<open>now\<close> is \<open>Date.now()\<close>. Inside \<open>try\<close>: a load for the
  log line, the push pass, then the pull pass; the \<open>catch\<close> only logs, so an error of the
  push pass skips the pull pass and goes no further. The push pass
  (\<open>syncLocalToSupabase\<close>, lines 102 to 362) is a parameter that returns the error it
  throws, if any, and the storage it leaves: what is proved of the cycle holds for every
  push pass.
\<close>

definition performSync ::
  "Host \<Rightarrow> 'w StorageDriver list \<Rightarrow> ('w storage \<Rightarrow> error option \<times> 'w storage) \<Rightarrow>
     (PullRequest \<Rightarrow> fetched) \<Rightarrow> bool \<Rightarrow> int \<Rightarrow> int \<Rightarrow> int \<Rightarrow>
     AutoSyncService \<times> 'w storage \<Rightarrow> cycle \<times> AutoSyncService \<times> 'w storage" where
  "performSync host drivers syncLocalToSupabase remote forceSync now t0 t1 s =
     (case s of (svc, st) \<Rightarrow>
        if \<not> forceSync \<and> now - lastSyncTime svc < 30000 then (Throttled, svc, st)
        else
          (case getFromLocalStorage host drivers st of
             (Inl e, st1) \<Rightarrow> (Ran, svc\<lparr>lastSyncTime := now\<rparr>, st1)
           | (Inr localData, st1) \<Rightarrow>
               (case syncLocalToSupabase st1 of
                  (Some e, st2) \<Rightarrow> (Ran, svc\<lparr>lastSyncTime := now\<rparr>, st2)
                | (None, st2) \<Rightarrow>
                    (Ran, svc\<lparr>lastSyncTime := now\<rparr>,
                     pr_storage (syncSupabaseToLocal host drivers t0 t1 remote st2)))))"

text \<open>\<open>forceSync()\<close> calls \<open>this.performSync()\<close> with no argument.\<close>

definition forceSync ::
  "Host \<Rightarrow> 'w StorageDriver list \<Rightarrow> ('w storage \<Rightarrow> error option \<times> 'w storage) \<Rightarrow>
     (PullRequest \<Rightarrow> fetched) \<Rightarrow> int \<Rightarrow> int \<Rightarrow> int \<Rightarrow>
     AutoSyncService \<times> 'w storage \<Rightarrow> cycle \<times> AutoSyncService \<times> 'w storage" where
  "forceSync host drivers syncLocalToSupabase remote now t0 t1 s =
     performSync host drivers syncLocalToSupabase remote False now t0 t1 s"

section \<open>The realtime ingestor (RealtimeService.processAttendanceChange)\<close>





section \<open>Adding an attendance record (services/attendanceService.ts)\<close>

text \<open>
  The query of \<open>getLastAttendanceTimestamp\<close>: the newest row of one direction, by
  \<open>student_database_id\<close> when the identifier is a UUID and by \<open>student_id\<close> otherwise.
  It resolves to \<open>{ data, error }\<close> or throws.
\<close>

datatype idColumn = StudentDatabaseIdColumn | StudentIdColumn

record LastQuery =
  lq_column :: idColumn
  lq_value :: string
  lq_type :: direction

datatype reply = Threw error | Replied "AttendanceRow response"

text \<open>
  \<open>insert(row).select().single()\<close>: \<open>{ data, error }\<close> with at most one row, or an
  exception. The backend takes the row the call built.
\<close>

datatype insertReply = InsertThrew error | Inserted "AttendanceRow option" "error option"

text \<open>
  The timestamps \<open>getLastAttendanceTimestamp\<close> collects in \<open>allRecords\<close>: those of the
  local entries whose \<open>studentDatabaseId\<close> or \<open>studentId\<close> is the identifier and whose
  direction is the action's, then the one of the server's row when online and answered.
\<close>

definition localTimes :: "string \<Rightarrow> direction \<Rightarrow> OfflineData \<Rightarrow> int list" where
  "localTimes studentIdentifier actionType localData =
     map timestamp
       (filter (\<lambda>r. (studentDatabaseId r = Some studentIdentifier \<or> studentId r = studentIdentifier) \<and>
                   atype r = actionType)
          (attendanceRecords localData))"

definition serverTimes :: "bool \<Rightarrow> (LastQuery \<Rightarrow> reply) \<Rightarrow> string \<Rightarrow> direction \<Rightarrow> int list" where
  "serverTimes online remote studentIdentifier actionType =
     (if online
      then (case remote \<lparr>lq_column = (if isUUID studentIdentifier then StudentDatabaseIdColumn
                                        else StudentIdColumn),
                          lq_value = studentIdentifier, lq_type = actionType\<rparr> of
              Threw e \<Rightarrow> []
            | Replied r \<Rightarrow>
                (if rerror r = None
                 then (case rdata r of Some (row # rest) \<Rightarrow> [ar_timestamp row] | _ \<Rightarrow> [])
                 else []))
      else [])"

definition allTimes ::
  "bool \<Rightarrow> (LastQuery \<Rightarrow> reply) \<Rightarrow> string \<Rightarrow> direction \<Rightarrow> OfflineData \<Rightarrow> int list" where
  "allTimes online remote studentIdentifier actionType localData =
     localTimes studentIdentifier actionType localData @
     serverTimes online remote studentIdentifier actionType"

text \<open>\<open>allRecords.sort((a, b) => b.time - a.time)[0].timestamp\<close>, or \<open>null\<close>.\<close>

definition newest :: "int list \<Rightarrow> int option" where
  "newest stamps = (case sort_key (\<lambda>t. - t) stamps of [] \<Rightarrow> None | t # rest \<Rightarrow> Some t)"

definition getLastAttendanceTimestamp ::
  "Host \<Rightarrow> 'w StorageDriver list \<Rightarrow> bool \<Rightarrow> (LastQuery \<Rightarrow> reply) \<Rightarrow> string \<Rightarrow> direction \<Rightarrow>
     'w storage \<Rightarrow> (error + int option) \<times> 'w storage" where
  "getLastAttendanceTimestamp host drivers online remote studentIdentifier actionType st =
     (case getFromLocalStorage host drivers st of
        (Inl e, st1) \<Rightarrow> (Inl e, st1)
      | (Inr localData, st1) \<Rightarrow>
          (Inr (newest (allTimes online remote studentIdentifier actionType localData)), st1))"

text \<open>
  \<open>generateId\<close>: \<open>local_\<close>, \<open>Date.now()\<close>, an underscore and a random string, which the
  caller of the model supplies.
\<close>

definition generateId :: "int \<Rightarrow> string \<Rightarrow> string" where
  "generateId t random = ''local_'' @ showInt t @ ''_'' @ random"

text \<open>
  The message of the cooldown error. \<open>elapsed\<close> is \<open>Date.now()\<close> minus the last timestamp,
  in milliseconds; the source divides by 1000 and rounds the remaining seconds up.
\<close>

definition cooldownMessage :: "int \<Rightarrow> string" where
  "cooldownMessage elapsed =
     (let remainingSeconds = - ((elapsed - 300000) div 1000)
      in ''COOLDOWN:'' @ showInt (remainingSeconds div 60) @ '':'' @ showInt (remainingSeconds mod 60))"

text \<open>\<open>record.studentDatabaseId || record.studentId\<close>.\<close>

definition lookupIdentifier :: "AttendanceEntry \<Rightarrow> string" where
  "lookupIdentifier record =
     (case studentDatabaseId record of
        Some d \<Rightarrow> if d \<noteq> [] then d else studentId record
      | None \<Rightarrow> studentId record)"

definition attendancePartial :: "AttendanceEntry list \<Rightarrow> PartialData" where
  "attendancePartial records =
     \<lparr>p_students = None, p_attendanceRecords = Some records, p_documents = None, p_lastSync = None,
      p_fullSyncCompleted = None\<rparr>"

text \<open>
  What a call did: what it returned or threw, the storage it leaves, and the arguments of
  its calls of \<open>saveToLocalStorage\<close>, in order.
\<close>

record 'w AddResult =
  add_result :: "error + AttendanceEntry"
  add_storage :: "'w storage"
  add_saves :: "PartialData list"

text \<open>
  The row \<open>addAttendanceRecord\<close> sends (lines 142 to 160). It has no \<open>id\<close>, which the
  backend assigns: \<open>ar_id\<close> is empty. A \<open>studentDatabaseId\<close> that is not a UUID is sent
  as \<open>null\<close>.
\<close>

definition insertPayload :: "AttendanceEntry \<Rightarrow> AttendanceRow" where
  "insertPayload record =
     \<lparr>ar_id = [],
      ar_student_database_id =
        (case studentDatabaseId record of
           Some d \<Rightarrow> if d \<noteq> [] \<and> isUUID d then Some d else None
         | None \<Rightarrow> None),
      ar_student_id = studentId record, ar_student_name = studentName record,
      ar_timestamp = timestamp record, ar_type = Some (atype record),
      ar_barcode = barcode record, ar_method = captureMethod record,
      ar_purpose = purpose record, ar_contact = contact record,
      ar_library = orDefault (library record) ''notre-dame'',
      ar_course = course record, ar_year = year record,
      ar_user_type = orDefault (userType record) ''student'',
      ar_student_type = studentType record, ar_level = level record,
      ar_strand = strand record\<rparr>"

text \<open>
  Lines 138 to 204: the row the insert returned, when one was sent (online) and it
  answered with a row and no error. An exception of the insert is caught and logged.
\<close>

definition insertedRow ::
  "bool \<Rightarrow> (AttendanceRow \<Rightarrow> insertReply) \<Rightarrow> AttendanceEntry \<Rightarrow> AttendanceRow option" where
  "insertedRow online remoteInsert record =
     (if online
      then (case remoteInsert (insertPayload record) of
              Inserted (Some row) None \<Rightarrow> Some row
            | _ \<Rightarrow> None)
      else None)"

text \<open>
  \<open>addAttendanceRecord\<close>. \<open>now\<close> is \<open>Date.now()\<close> of the cooldown test, \<open>idTime\<close> the one
  of \<open>generateId\<close>. The two calls of \<open>saveToLocalStorage\<close> are not awaited: an error of
  theirs reaches no one, and the model runs them in program order.
\<close>

definition addAttendanceRecord ::
  "Host \<Rightarrow> 'w StorageDriver list \<Rightarrow> bool \<Rightarrow> (LastQuery \<Rightarrow> reply) \<Rightarrow>
     (AttendanceRow \<Rightarrow> insertReply) \<Rightarrow> int \<Rightarrow> int \<Rightarrow> string \<Rightarrow> AttendanceEntry \<Rightarrow> 'w storage \<Rightarrow>
     'w AddResult" where
  "addAttendanceRecord host drivers online remoteLast remoteInsert now idTime random record st =
     (case getLastAttendanceTimestamp host drivers online remoteLast (lookupIdentifier record)
             (atype record) st of
        (Inl e, st1) \<Rightarrow> \<lparr>add_result = Inl e, add_storage = st1, add_saves = []\<rparr>
      | (Inr lastTimestamp, st1) \<Rightarrow>
          (case (case lastTimestamp of
                   Some lastTime \<Rightarrow> if now - lastTime < 300000 then Some (now - lastTime) else None
                 | None \<Rightarrow> None) of
             Some elapsed \<Rightarrow>
               \<lparr>add_result = Inl (Error (cooldownMessage elapsed)), add_storage = st1,
                add_saves = []\<rparr>
           | None \<Rightarrow>
               (case getFromLocalStorage host drivers st1 of
                  (Inl e, st2) \<Rightarrow> \<lparr>add_result = Inl e, add_storage = st2, add_saves = []\<rparr>
                | (Inr localData, st2) \<Rightarrow>
                    let newRecord = record\<lparr>entry_id := generateId idTime random\<rparr>;
                        updatedRecords = attendanceRecords localData @ [newRecord];
                        st3 = snd (saveToLocalStorage host drivers
                          (attendancePartial updatedRecords) st2)
                    in (case insertedRow online remoteInsert record of
                          Some row \<Rightarrow>
                            let serverRecord = entryOfInserted row;
                                updatedWithServerId =
                                  map (\<lambda>r. if entry_id r = entry_id newRecord then serverRecord else r)
                                    updatedRecords
                            in \<lparr>add_result = Inr serverRecord,
                                add_storage = snd (saveToLocalStorage host drivers
                                  (attendancePartial updatedWithServerId) st3),
                                add_saves = [attendancePartial updatedRecords,
                                  attendancePartial updatedWithServerId]\<rparr>
                        | None \<Rightarrow>
                            \<lparr>add_result = Inr newRecord, add_storage = st3,
                             add_saves = [attendancePartial updatedRecords]\<rparr>))))"

section \<open>Sample data\<close>

text \<open>
  Concrete inputs for the examples. \<open>sampleHost\<close> is a host in UTC, as far as the
  instants of the examples go (the first hour of 1970), on which no \<open>setItem\<close> throws.
\<close>

definition sampleEntry :: "string \<Rightarrow> string \<Rightarrow> int \<Rightarrow> string option \<Rightarrow> AttendanceEntry" where
  "sampleEntry i sid t c =
     \<lparr>entry_id = i, studentDatabaseId = None, studentId = sid, studentName = ''Ana'',
      timestamp = t, atype = CheckIn, barcode = None, captureMethod = Some ''manual'', purpose = None,
      contact = None, library = None, course = c, year = None, userType = None,
      studentType = None, level = None, strand = None\<rparr>"

definition pad :: "nat \<Rightarrow> string \<Rightarrow> string" where
  "pad n s = replicate (n - length s) CHR ''0'' @ s"

definition sampleHost :: Host where
  "sampleHost =
     \<lparr>localFields = (\<lambda>t. (1970, 0, 1, 0, t div 60000, t div 1000 mod 60)),
      toISOString = (\<lambda>t. ''1970-01-01T00:'' @ pad 2 (showInt (t div 60000)) @ '':'' @
         pad 2 (showInt (t div 1000 mod 60)) @ ''.'' @ pad 3 (showInt (t mod 1000)) @ ''Z''),
      minusDays = (\<lambda>t n. t - int n * 86400000),
      hasLocalStorage = True,
      setItemError = (\<lambda>_. None),
      setEngineError = (\<lambda>_. None)\<rparr>"

text \<open>
  A driver that reports itself available and fails every operation, and one that can be
  read and refuses every write.
\<close>

definition brokenDriver :: "lsItem StorageDriver" where
  "brokenDriver =
     \<lparr>dname = ''indexeddb'', isAvailable = (\<lambda>_. True), load = (\<lambda>_. Inl (Error ''blocked'')),
      save = (\<lambda>_ w. (Some (Error ''blocked''), w)), clear = (\<lambda>w. (Some (Error ''blocked''), w))\<rparr>"

definition readOnlyDriver :: "lsItem StorageDriver" where
  "readOnlyDriver =
     \<lparr>dname = ''indexeddb'', isAvailable = (\<lambda>_. True), load = (\<lambda>_. Inr emptyData),
      save = (\<lambda>_ w. (Some (Error ''read-only''), w)),
      clear = (\<lambda>w. (Some (Error ''read-only''), w))\<rparr>"

definition samplePartial :: "AttendanceEntry list option \<Rightarrow> bool option \<Rightarrow> PartialData" where
  "samplePartial recs flag =
     \<lparr>p_students = None, p_attendanceRecords = recs, p_documents = None, p_lastSync = None,
      p_fullSyncCompleted = flag\<rparr>"

text \<open>
  A manager before its first use, and the manager \<open>init\<close> leaves on \<open>sampleHost\<close> when
  the driver of index \<open>i\<close> is the first that loads.
\<close>

definition freshManager :: StorageManager where
  "freshManager = \<lparr>currentDriver = None, initialized = False, engineName = None\<rparr>"

definition managerOn :: "nat \<Rightarrow> string \<Rightarrow> StorageManager" where
  "managerOn i name = \<lparr>currentDriver = Some i, initialized = True, engineName = Some name\<rparr>"

text \<open>Two backends: one that cannot be reached, one that holds no rows.\<close>

definition offline :: "PullRequest \<Rightarrow> fetched" where
  "offline req = Rejected (Error ''Failed to fetch'')"

definition emptyBackend :: "PullRequest \<Rightarrow> fetched" where
  "emptyBackend req = Resolved (Response (Some []) None) (Response (Some []) None)"


text \<open>A blob of the flat driver that holds the bootstrap flag and nothing else.\<close>

definition storedWithFlag :: PartialData where
  "storedWithFlag =
     \<lparr>p_students = Some [], p_attendanceRecords = Some [], p_documents = Some [],
      p_lastSync = None, p_fullSyncCompleted = Some True\<rparr>"

text \<open>An identifier the backend assigned, and a row of the attendance table.\<close>

definition sampleUuid :: string where
  "sampleUuid = ''123e4567-e89b-12d3-a456-426614174000''"

definition sampleRow :: "string \<Rightarrow> string \<Rightarrow> int \<Rightarrow> AttendanceRow" where
  "sampleRow i sid t =
     \<lparr>ar_id = i, ar_student_database_id = None, ar_student_id = sid, ar_student_name = ''Ana'',
      ar_timestamp = t, ar_type = Some CheckIn, ar_barcode = None, ar_method = Some ''manual'',
      ar_purpose = None, ar_contact = None, ar_library = None, ar_course = None, ar_year = None,
      ar_user_type = None, ar_student_type = None, ar_level = None, ar_strand = None\<rparr>"

text \<open>
  A backend that holds rows: it answers the query of the last timestamp from them, and
  an insert with the row it was given under the identifier it assigns.
\<close>

definition answerLast :: "AttendanceRow list \<Rightarrow> LastQuery \<Rightarrow> reply" where
  "answerLast rows q =
     Replied (Response
       (Some (take 1 (sort_key (\<lambda>r. - ar_timestamp r)
          (filter (\<lambda>r. (case lq_column q of
                           StudentDatabaseIdColumn \<Rightarrow> ar_student_database_id r = Some (lq_value q)
                         | StudentIdColumn \<Rightarrow> ar_student_id r = lq_value q) \<and>
                       ar_type r = Some (lq_type q))
             rows))))
       None)"

definition assigningInsert :: "string \<Rightarrow> AttendanceRow \<Rightarrow> insertReply" where
  "assigningInsert i row = Inserted (Some (row\<lparr>ar_id := i\<rparr>)) None"

text \<open>
  The scan of a student who was registered on this device and is not on the backend
  yet: \<open>studentDatabaseId\<close> is the student's \<open>id\<close>, a local one. \<open>firstAdd\<close> records a
  scan on an empty store, online; \<open>secondAdd\<close> records the next scan of the
  same student and direction, 1.6 seconds later, on the store \<open>firstAdd\<close> left and the
  backend that holds the row \<open>firstAdd\<close> inserted.
\<close>

definition localStudentScan :: "int \<Rightarrow> AttendanceEntry" where
  "localStudentScan t = (sampleEntry [] ''S123'' t None)\<lparr>studentDatabaseId := Some ''local_abc''\<rparr>"

definition firstAdd :: "lsItem AddResult" where
  "firstAdd =
     addAttendanceRecord sampleHost [localStorageDriver sampleHost] True (answerLast [])
       (assigningInsert sampleUuid) 100 101 ''k3x'' (localStudentScan 100)
       (freshManager, NoItem)"

definition secondAdd :: "lsItem AddResult" where
  "secondAdd =
     addAttendanceRecord sampleHost [localStorageDriver sampleHost] True
       (answerLast [(insertPayload (localStudentScan 100))\<lparr>ar_id := sampleUuid\<rparr>])
       (assigningInsert ''123e4567-e89b-12d3-a456-426614174001'') 1700 1701 ''k3y''
       (localStudentScan 1700) (add_storage firstAdd)"

section \<open>Properties\<close>

subsection \<open>Fuzzy merge of a pair\<close>

text \<open>
  What the merge does with a pair: two entries of one student and one direction, at most
  10 seconds apart, merge into exactly one, by the tests of \<open>pickBetter\<close> in their order.
  Its second test is of the prefix \<open>local_\<close> alone.
\<close>

lemma dedupeList_pair:
  assumes "studentId a = studentId b" and "atype a = atype b"
    and "\<bar>timestamp a - timestamp b\<bar> \<le> 10000"
  shows "\<exists>w. dedupeList [a, b] = [w] \<and>
    (truthy (course a) \<and> \<not> truthy (course b) \<longrightarrow> w = a) \<and>
    (truthy (course b) \<and> \<not> truthy (course a) \<longrightarrow> w = b) \<and>
    (truthy (course a) = truthy (course b) \<longrightarrow>
       (\<not> isLocalId (entry_id a) \<and> isLocalId (entry_id b) \<longrightarrow> w = a) \<and>
       (\<not> isLocalId (entry_id b) \<and> isLocalId (entry_id a) \<longrightarrow> w = b) \<and>
       (isLocalId (entry_id a) = isLocalId (entry_id b) \<longrightarrow>
          (timestamp a > timestamp b \<longrightarrow> w = a) \<and>
          (timestamp b > timestamp a \<longrightarrow> w = b) \<and>
          (timestamp a = timestamp b \<longrightarrow> w = a)))"
proof -
  have m: "sameEvent a b"
    using assms by (simp add: sameEvent_def)
  have "dedupeList [a, b] = [pickBetter a b]"
    using m by (simp add: dedupeList_def dedupeStep_def)
  then show ?thesis
    by (auto simp: pickBetter_def)
qed

text \<open>
  C1 fails on the code. An entry read from the desktop database has the row's number as
  its identifier: not a UUID, so the pull pass takes it for local-only, and not of the
  prefix \<open>local_\<close>, so \<open>pickBetter\<close> takes it for permanent. None of the entries here
  has a course. The merge keeps the entry numbered 17 over the server's entry with a
  UUID, because it is 5 seconds later; the argument the pull pass gives
  \<open>saveToLocalStorage\<close> for that local entry and that server row holds the entry
  numbered 17 alone; and the merge keeps the entry numbered 17 over a later \<open>local_\<close>
  entry, though neither identifier is the backend's.
\<close>

theorem pickBetter_takes_row_number_for_permanent:
  "isUUID sampleUuid \<and> \<not> isUUID ''17'' \<and> \<not> isLocalId ''17'' \<and>
   dedupeList [sampleEntry sampleUuid ''S123'' 4000 None, sampleEntry ''17'' ''S123'' 9000 None] =
     [sampleEntry ''17'' ''S123'' 9000 None] \<and>
   p_attendanceRecords (pulledData sampleHost 50000 50001
     (emptyData\<lparr>attendanceRecords := [sampleEntry ''17'' ''S123'' 9000 None]\<rparr>)
     (Response (Some []) None) (Response (Some [sampleRow sampleUuid ''S123'' 4000]) None)) =
     Some [sampleEntry ''17'' ''S123'' 9000 None] \<and>
   dedupeList [sampleEntry ''17'' ''S123'' 4000 None, sampleEntry ''local_1'' ''S123'' 9000 None] =
     [sampleEntry ''17'' ''S123'' 4000 None]"
  by code_simp

subsection \<open>Exact-key deduplication\<close>

lemma foldl_keepUnseen:
  "foldl (keepUnseen host) (seen, acc) xs =
     (seen \<union> entryKey host ` set xs, acc @ firstOfKey (entryKey host) seen xs)"
  by (induction xs arbitrary: seen acc) (auto simp: keepUnseen_def)

lemma firstOfKey_subset: "set (firstOfKey k seen xs) \<subseteq> set xs"
  by (induction xs arbitrary: seen) auto

lemma firstOfKey_sorted:
  "sorted (map f xs) \<Longrightarrow> sorted (map f (firstOfKey k seen xs))"
proof (induction xs arbitrary: seen)
  case Nil
  then show ?case by simp
next
  case (Cons x xs)
  then show ?case
    using firstOfKey_subset [of k "insert (k x) seen" xs] by auto
qed

lemma firstOfKey_fresh: "k ` set (firstOfKey k seen xs) \<inter> seen = {}"
  by (induction xs arbitrary: seen) auto

lemma firstOfKey_distinct: "distinct (map k (firstOfKey k seen xs))"
proof (induction xs arbitrary: seen)
  case Nil
  then show ?case by simp
next
  case (Cons x xs)
  then show ?case
    using firstOfKey_fresh [of k "insert (k x) seen" xs] by auto
qed

lemma firstOfKey_id:
  "distinct (map k xs) \<Longrightarrow> k ` set xs \<inter> seen = {} \<Longrightarrow> firstOfKey k seen xs = xs"
  by (induction xs arbitrary: seen) auto

lemma firstOfKey_latest:
  "sorted (map f xs) \<Longrightarrow> r \<in> set xs \<Longrightarrow> k r \<notin> seen \<Longrightarrow>
     \<exists>d \<in> set (firstOfKey k seen xs). k d = k r \<and> f d \<le> f r"
proof (induction xs arbitrary: seen)
  case Nil
  then show ?case by simp
next
  case (Cons x xs)
  show ?case
  proof (cases "k x = k r")
    case True
    then show ?thesis using Cons.prems by auto
  next
    case False
    then have "r \<in> set xs" "k r \<notin> insert (k x) seen" "sorted (map f xs)"
      using Cons.prems by auto
    from Cons.IH [OF this(3) this(1) this(2)] Cons.IH [of seen] Cons.prems False
    show ?thesis by auto
  qed
qed

lemma newestFirst_sorted: "sorted (map (\<lambda>r. - timestamp r) (newestFirst records))"
  by (simp add: newestFirst_def)

lemma deduplicateAttendance_firstOfKey:
  "deduplicateAttendance host records = firstOfKey (entryKey host) {} (newestFirst records)"
proof -
  have "sorted (map (\<lambda>r. - timestamp r) (firstOfKey (entryKey host) {} (newestFirst records)))"
    by (rule firstOfKey_sorted) (rule newestFirst_sorted)
  then show ?thesis
    by (simp add: deduplicateAttendance_def foldl_keepUnseen newestFirst_def sort_key_id_if_sorted)
qed

text \<open>
  C2. \<open>deduplicateAttendance\<close> is idempotent. Its result is sorted by descending
  timestamp, holds one entry for each key (student, direction, local calendar second),
  all of them entries of the input, and for every input entry it holds an entry of the
  same key that is at least as late.
\<close>

theorem deduplicateAttendance_idempotent:
  "deduplicateAttendance host (deduplicateAttendance host L) = deduplicateAttendance host L \<and>
   sorted_wrt (\<lambda>a b. timestamp b \<le> timestamp a) (deduplicateAttendance host L) \<and>
   distinct (map (entryKey host) (deduplicateAttendance host L)) \<and>
   set (deduplicateAttendance host L) \<subseteq> set L \<and>
   (\<forall>r \<in> set L. \<exists>d \<in> set (deduplicateAttendance host L).
      entryKey host d = entryKey host r \<and> timestamp r \<le> timestamp d)"
proof -
  let ?U = "firstOfKey (entryKey host) {} (newestFirst L)"
  have s: "sorted (map (\<lambda>r. - timestamp r) ?U)"
    by (rule firstOfKey_sorted) (rule newestFirst_sorted)
  have "newestFirst ?U = ?U"
    using s by (simp add: newestFirst_def sort_key_id_if_sorted)
  moreover have "firstOfKey (entryKey host) {} ?U = ?U"
    by (rule firstOfKey_id) (simp_all add: firstOfKey_distinct)
  ultimately have idem: "deduplicateAttendance host (deduplicateAttendance host L) =
      deduplicateAttendance host L"
    by (simp add: deduplicateAttendance_firstOfKey)
  have srt: "sorted_wrt (\<lambda>a b. timestamp b \<le> timestamp a) ?U"
    using s by (simp add: sorted_map)
  have sub: "set ?U \<subseteq> set L"
    using firstOfKey_subset [of "entryKey host" "{}" "newestFirst L"]
    by (simp add: newestFirst_def)
  have latest: "\<exists>d \<in> set ?U. entryKey host d = entryKey host r \<and> timestamp r \<le> timestamp d"
    if "r \<in> set L" for r
  proof -
    have "r \<in> set (newestFirst L)"
      using that by (simp add: newestFirst_def)
    from firstOfKey_latest [OF newestFirst_sorted this, of "entryKey host" "{}"]
    show ?thesis by auto
  qed
  show ?thesis
    using idem srt sub latest
    by (simp add: deduplicateAttendance_firstOfKey firstOfKey_distinct)
qed

theorem deduplicateAttendance_idempotent_witness:
  "sampleEntry ''local_1'' ''S123'' 4000 None
     \<in> set [sampleEntry ''local_1'' ''S123'' 4000 None, sampleEntry ''u1'' ''S123'' 4500 None] \<and>
   deduplicateAttendance sampleHost
     [sampleEntry ''local_1'' ''S123'' 4000 None, sampleEntry ''u1'' ''S123'' 4500 None] =
     [sampleEntry ''u1'' ''S123'' 4500 None] \<and>
   deduplicateAttendance sampleHost [sampleEntry ''u1'' ''S123'' 4500 None] =
     [sampleEntry ''u1'' ''S123'' 4500 None]"
  using deduplicateAttendance_idempotent [of sampleHost
     "[sampleEntry ''local_1'' ''S123'' 4000 None, sampleEntry ''u1'' ''S123'' 4500 None]"]
  by (simp add: deduplicateAttendance_def newestFirst_def keepUnseen_def entryKey_def
      timestampKey_def sampleHost_def sampleEntry_def typeString_def showInt_def)

subsection \<open>The local-load wrapper\<close>

text \<open>
  C10. \<open>getFromLocalStorage\<close> never throws, whatever the drivers and the manager do: it
  returns an envelope; when \<open>storageManager.load()\<close> throws, the empty envelope, whose
  \<open>fullSyncCompleted\<close> is absent; and otherwise the envelope loaded.
\<close>

theorem getFromLocalStorage_total:
  "(\<exists>data. fst (getFromLocalStorage host drivers st) = Inr data) \<and>
   (\<forall>e. fst (manager_load host drivers st) = Inl e \<longrightarrow>
      fst (getFromLocalStorage host drivers st) = Inr emptyData) \<and>
   (\<forall>data. fst (manager_load host drivers st) = Inr data \<longrightarrow>
      fst (getFromLocalStorage host drivers st) = Inr data) \<and>
   students emptyData = [] \<and> attendanceRecords emptyData = [] \<and> documents emptyData = [] \<and>
   lastSync emptyData = None \<and> fullSyncCompleted emptyData = None"
  by (cases "manager_load host drivers st"; cases "fst (manager_load host drivers st)")
     (simp_all add: getFromLocalStorage_def emptyData_def)

theorem getFromLocalStorage_total_witness:
  "fst (manager_load sampleHost [brokenDriver] (freshManager, NoItem)) = Inl (Error ''No storage driver available'') \<and>
   fst (getFromLocalStorage sampleHost [brokenDriver] (freshManager, NoItem)) = Inr emptyData"
  using getFromLocalStorage_total [of sampleHost "[brokenDriver]" "(freshManager, NoItem)"]
  by (simp add: manager_load_def ensureInit_def manager_init_def brokenDriver_def freshManager_def)

subsection \<open>The flat driver forgets the bootstrap flag\<close>

text \<open>
  C6 fails on the code. \<open>LocalStorageDriver.save\<close> builds the object it writes from four
  properties and leaves \<open>fullSyncCompleted\<close> out: a flag passed to \<open>save\<close> is never
  written, and a stored flag is lost by the next save. Here, on an empty store after
  \<open>save({attendanceRecords: [], fullSyncCompleted: true})\<close>, and on a blob that holds
  \<open>fullSyncCompleted: true\<close> after \<open>save({attendanceRecords: []})\<close>: \<open>load\<close> returns the
  empty envelope, without the flag.
\<close>

theorem localStorage_save_drops_fullSyncCompleted:
  "localStorage_load (snd (localStorage_save sampleHost (samplePartial (Some []) (Some True)) NoItem)) =
     Inr emptyData \<and>
   localStorage_load (Parsed storedWithFlag) = Inr (emptyData\<lparr>fullSyncCompleted := Some True\<rparr>) \<and>
   localStorage_save sampleHost (samplePartial (Some []) None) (Parsed storedWithFlag) =
     (None, Parsed (storedWithFlag\<lparr>p_fullSyncCompleted := None\<rparr>)) \<and>
   localStorage_load (snd (localStorage_save sampleHost (samplePartial (Some []) None)
     (Parsed storedWithFlag))) = Inr emptyData \<and>
   fullSyncCompleted emptyData = None"
  by (simp add: localStorage_load_def localStorage_save_def samplePartial_def storedWithFlag_def
      emptyData_def orEmpty_def newMap_def mapValues_def truthy_def sampleHost_def)

subsection \<open>Clear has no fallback\<close>

text \<open>
  What \<open>clear\<close> does: it runs on the current driver only, its result is that driver's
  result, an error included, and the current driver stays the same.
\<close>

lemma manager_clear_current_only:
  assumes "currentDriver m = Some i"
  shows "manager_clear host drivers (m, w) =
     (fst (clear (drivers ! i) w), (m, snd (clear (drivers ! i) w)))"
  using assms by (simp add: manager_clear_def ensureInit_def split: prod.splits)

text \<open>
  C7 fails on the code. The first driver can be read and refuses every write, the flat
  driver after it is available and its \<open>clear\<close> and \<open>save\<close> succeed. From a fresh
  manager, \<open>clear\<close> initialises on the first driver, surfaces its error and stays on it:
  the flat driver is not tried. \<open>save\<close> in the same state falls back to the flat driver
  and switches to it.
\<close>

theorem manager_clear_surfaces_error:
  "manager_clear sampleHost [readOnlyDriver, localStorageDriver sampleHost] (freshManager, NoItem) =
     (Some (Error ''read-only''), (managerOn 0 ''indexeddb'', NoItem)) \<and>
   isAvailable (localStorageDriver sampleHost) NoItem \<and>
   fst (clear (localStorageDriver sampleHost) NoItem) = None \<and>
   manager_save sampleHost [readOnlyDriver, localStorageDriver sampleHost]
     (samplePartial (Some []) None) (freshManager, NoItem) =
     (None, ((managerOn 0 ''indexeddb'')\<lparr>currentDriver := Some 1\<rparr>,
        Parsed \<lparr>p_students = Some [], p_attendanceRecords = Some [],
          p_documents = Some [], p_lastSync = None, p_fullSyncCompleted = None\<rparr>))"
  by code_simp

subsection \<open>Loading twice\<close>

text \<open>
  A load leaves the persisted state as it is. A second load returns what the first
  returned when the manager has a driver, or when writing the engine's name never
  throws: the manager then stands on the driver that answered.
\<close>

lemma initLoop_quiet:
  assumes "\<forall>name. setEngineError host name = None"
  shows "initLoop host w ds k m = (False, m) \<or>
    (\<exists>i m1. initLoop host w ds k m = (True, m1) \<and> currentDriver m1 = Some i \<and>
       k \<le> i \<and> i < k + length ds \<and> (\<exists>d. load (ds ! (i - k)) w = Inr d))"
proof (induction ds arbitrary: k)
  case Nil
  then show ?case by simp
next
  case (Cons driver rest)
  show ?case
  proof (cases "isAvailable driver w \<and> (\<exists>d. load driver w = Inr d)")
    case True
    then show ?thesis using assms by auto
  next
    case False
    then have e: "initLoop host w (driver # rest) k m = initLoop host w rest (Suc k) m"
      by (auto split: sum.splits)
    from Cons.IH [of "Suc k"] show ?thesis
      unfolding e by (auto simp: Suc_diff_le)
  qed
qed

lemma loadFallback_Some:
  "loadFallback w ds k = Some (j, d) \<Longrightarrow>
     k \<le> j \<and> j < k + length ds \<and> load (ds ! (j - k)) w = Inr d"
proof (induction ds arbitrary: k)
  case Nil
  then show ?case by simp
next
  case (Cons driver rest)
  show ?case
  proof (cases "isAvailable driver w \<and> (\<exists>d. load driver w = Inr d)")
    case True
    then show ?thesis using Cons.prems by auto
  next
    case False
    then have "loadFallback w rest (Suc k) = Some (j, d)"
      using Cons.prems by (auto split: sum.splits if_splits)
    from Cons.IH [OF this] show ?thesis
      by (auto simp: Suc_diff_le)
  qed
qed

lemma loadFallback_loads:
  assumes "loadFallback w (drop (Suc i) drivers) (Suc i) = Some (j, d)"
  shows "load (drivers ! j) w = Inr d"
proof -
  from loadFallback_Some [OF assms]
  have b: "Suc i \<le> j" "j < Suc i + length (drop (Suc i) drivers)"
    and l: "load (drop (Suc i) drivers ! (j - Suc i)) w = Inr d"
    by auto
  from b have "Suc i + (j - Suc i) = j" "Suc i + (j - Suc i) < length drivers"
    by auto
  then have "drop (Suc i) drivers ! (j - Suc i) = drivers ! j"
    by (metis nth_drop less_imp_le_nat add_lessD1)
  with l show ?thesis by simp
qed

lemma manager_load_world: "snd (snd (manager_load host drivers st)) = snd st"
  by (cases st)
     (auto simp: manager_load_def ensureInit_def manager_init_def
       split: option.splits sum.splits prod.splits if_splits bool.splits)

lemma manager_load_on:
  assumes "currentDriver m = Some i"
  shows "manager_load host drivers (snd (manager_load host drivers (m, w))) =
     manager_load host drivers (m, w)"
proof (cases "load (drivers ! i) w")
  case (Inr d)
  then show ?thesis using assms
    by (simp add: manager_load_def ensureInit_def)
next
  case (Inl e)
  show ?thesis
  proof (cases "loadFallback w (drop (Suc i) drivers) (Suc i)")
    case None
    then show ?thesis using Inl assms
      by (simp add: manager_load_def ensureInit_def)
  next
    case (Some jd)
    obtain j d where jd: "jd = (j, d)" by (cases jd)
    from loadFallback_loads [of w i drivers j d] Some jd
    have "load (drivers ! j) w = Inr d" by simp
    then show ?thesis using Some jd Inl assms
      by (simp add: manager_load_def ensureInit_def)
  qed
qed

lemma manager_load_again:
  assumes "currentDriver (fst st) \<noteq> None \<or> (\<forall>name. setEngineError host name = None)"
  shows "manager_load host drivers (snd (manager_load host drivers st)) =
     manager_load host drivers st"
proof (cases st)
  case (Pair m w)
  show ?thesis
  proof (cases "currentDriver m")
    case (Some i)
    then show ?thesis using Pair manager_load_on by simp
  next
    case None
    then have q: "\<forall>name. setEngineError host name = None"
      using assms Pair by simp
    show ?thesis
    proof (cases "initialized m")
      case True
      then show ?thesis using None Pair
        by (simp add: manager_load_def ensureInit_def manager_init_def)
    next
      case False
      from initLoop_quiet [OF q, of w drivers 0 m]
      consider "initLoop host w drivers 0 m = (False, m)"
        | i m1 d where "initLoop host w drivers 0 m = (True, m1)" "currentDriver m1 = Some i"
            "load (drivers ! i) w = Inr d"
        by auto
      then show ?thesis
      proof cases
        case 1
        then show ?thesis using None False Pair
          by (simp add: manager_load_def ensureInit_def manager_init_def)
      next
        case 2
        then show ?thesis using None False Pair
          by (simp add: manager_load_def ensureInit_def manager_init_def)
      qed
    qed
  qed
qed

lemma getFromLocalStorage_world: "snd (snd (getFromLocalStorage host drivers st)) = snd st"
  using manager_load_world [of host drivers st]
  by (cases "manager_load host drivers st"; cases "fst (manager_load host drivers st)")
     (simp_all add: getFromLocalStorage_def)

lemma getFromLocalStorage_snd:
  "snd (getFromLocalStorage host drivers st) = snd (manager_load host drivers st)"
  by (cases "manager_load host drivers st"; cases "fst (manager_load host drivers st)")
     (simp_all add: getFromLocalStorage_def)

lemma getFromLocalStorage_again:
  assumes "currentDriver (fst st) \<noteq> None \<or> (\<forall>name. setEngineError host name = None)"
  shows "getFromLocalStorage host drivers (snd (getFromLocalStorage host drivers st)) =
     getFromLocalStorage host drivers st"
  by (simp add: getFromLocalStorage_snd)
     (simp add: getFromLocalStorage_def manager_load_again [OF assms])

lemma getFromLocalStorage_Inr: "\<exists>data. fst (getFromLocalStorage host drivers st) = Inr data"
  by (cases "manager_load host drivers st"; cases "fst (manager_load host drivers st)")
     (simp_all add: getFromLocalStorage_def)

subsection \<open>The pull pass\<close>

text \<open>
  C3. When the fetch of the pull pass fails (the request is rejected, or the students
  query or the attendance query answers with an error), the pass calls no save and lets
  no error out, and the persisted state is the one before the pass. A load after the pass
  returns the envelope a load before it returns, when the manager has its driver before
  the pass (as it has in \<open>performSync\<close>, which loads first) or writing the engine's name
  never throws.
\<close>

theorem pull_failure_keeps_storage:
  assumes "\<And>req. fetchFailed (remote req)"
  shows "snd (pr_storage (syncSupabaseToLocal host drivers t0 t1 remote st)) = snd st \<and>
    pr_saved (syncSupabaseToLocal host drivers t0 t1 remote st) = None \<and>
    pr_raised (syncSupabaseToLocal host drivers t0 t1 remote st) = None \<and>
    (currentDriver (fst st) \<noteq> None \<or> (\<forall>name. setEngineError host name = None) \<longrightarrow>
       fst (getFromLocalStorage host drivers
         (pr_storage (syncSupabaseToLocal host drivers t0 t1 remote st))) =
       fst (getFromLocalStorage host drivers st))"
proof -
  obtain localData where l: "fst (getFromLocalStorage host drivers st) = Inr localData"
    using getFromLocalStorage_Inr by blast
  then obtain st1 where g: "getFromLocalStorage host drivers st = (Inr localData, st1)"
    by (cases "getFromLocalStorage host drivers st") auto
  have w: "snd st1 = snd st"
    using getFromLocalStorage_world [of host drivers st] g by simp
  have a: "getFromLocalStorage host drivers st1 = getFromLocalStorage host drivers st"
    if "currentDriver (fst st) \<noteq> None \<or> (\<forall>name. setEngineError host name = None)"
    using getFromLocalStorage_again [OF that, of drivers] g by simp
  have "fetchFailed (remote (pullRequest host t0 localData))"
    by (rule assms)
  then have r: "syncSupabaseToLocal host drivers t0 t1 remote st =
      \<lparr>pr_storage = st1, pr_request = Some (pullRequest host t0 localData),
       pr_saved = None, pr_raised = None\<rparr>"
    using g by (auto simp: syncSupabaseToLocal_def fetchFailed_def split: fetched.splits)
  show ?thesis
    using a by (simp add: r w)
qed

theorem pull_failure_keeps_storage_witness:
  "fetchFailed (offline \<lparr>studentsSince = None, attendanceSince = None\<rparr>) \<and>
   pr_storage (syncSupabaseToLocal sampleHost [localStorageDriver sampleHost] 50000 50001 offline
     (freshManager, Parsed (samplePartial (Some [sampleEntry ''local_1'' ''S123'' 4000 None]) (Some True)))) =
     (managerOn 0 ''localstorage'',
      Parsed (samplePartial (Some [sampleEntry ''local_1'' ''S123'' 4000 None]) (Some True))) \<and>
   pr_saved (syncSupabaseToLocal sampleHost [localStorageDriver sampleHost] 50000 50001 offline
     (freshManager, Parsed (samplePartial (Some [sampleEntry ''local_1'' ''S123'' 4000 None]) (Some True)))) = None \<and>
   fst (getFromLocalStorage sampleHost [localStorageDriver sampleHost]
     (pr_storage (syncSupabaseToLocal sampleHost [localStorageDriver sampleHost] 50000 50001 offline
       (freshManager, Parsed (samplePartial (Some [sampleEntry ''local_1'' ''S123'' 4000 None]) (Some True)))))) =
     Inr (emptyData\<lparr>attendanceRecords := [sampleEntry ''local_1'' ''S123'' 4000 None],
       fullSyncCompleted := Some True\<rparr>)"
proof -
  let ?ds = "[localStorageDriver sampleHost]"
  let ?st = "(freshManager, Parsed (samplePartial (Some [sampleEntry ''local_1'' ''S123'' 4000 None]) (Some True)))"
  let ?R = "syncSupabaseToLocal sampleHost ?ds 50000 50001 offline ?st"
  have f: "fetchFailed (offline req)" for req
    by (simp add: offline_def fetchFailed_def)
  have q: "\<forall>name. setEngineError sampleHost name = None"
    by (simp add: sampleHost_def)
  note t = pull_failure_keeps_storage [where remote = offline and host = sampleHost
      and drivers = ?ds and ?t0.0 = 50000 and ?t1.0 = 50001 and st = ?st, OF f]
  have w: "snd (pr_storage ?R) = snd ?st"
    using t by blast
  have s: "pr_saved ?R = None"
    using t by blast
  have a: "fst (getFromLocalStorage sampleHost ?ds (pr_storage ?R)) =
      fst (getFromLocalStorage sampleHost ?ds ?st)"
    using t q by blast
  have m: "fst (pr_storage ?R) = managerOn 0 ''localstorage''"
    by code_simp
  have l: "fst (getFromLocalStorage sampleHost ?ds ?st) =
      Inr (emptyData\<lparr>attendanceRecords := [sampleEntry ''local_1'' ''S123'' 4000 None],
        fullSyncCompleted := Some True\<rparr>)"
    by code_simp
  have p: "pr_storage ?R = (managerOn 0 ''localstorage'', snd ?st)"
    using m w by (cases "pr_storage ?R") simp
  show ?thesis
    using f p s a l by simp
qed

text \<open>
  What the pull pass asks: the students query has no filter; the attendance query has
  no lower bound exactly when \<open>fullSyncCompleted\<close> of the loaded envelope is not true, and
  the lower bound of 30 days before now when it is true. When both queries answer without
  error, the argument of its \<open>saveToLocalStorage\<close> has \<open>fullSyncCompleted: true\<close>.
\<close>

lemma pull_request_window:
  assumes "fst (getFromLocalStorage host drivers st) = Inr localData"
  shows "\<exists>req. pr_request (syncSupabaseToLocal host drivers t0 t1 remote st) = Some req \<and>
    studentsSince req = None \<and>
    (attendanceSince req = None \<longleftrightarrow> fullSyncCompleted localData \<noteq> Some True) \<and>
    (fullSyncCompleted localData = Some True \<longrightarrow>
       attendanceSince req = Some (minusDays host t0 30)) \<and>
    (\<forall>sr ar. remote req = Resolved sr ar \<and> rerror sr = None \<and> rerror ar = None \<longrightarrow>
       (\<exists>p. pr_saved (syncSupabaseToLocal host drivers t0 t1 remote st) = Some p \<and>
            p_fullSyncCompleted p = Some True))"
proof -
  obtain st1 where g: "getFromLocalStorage host drivers st = (Inr localData, st1)"
    using assms by (cases "getFromLocalStorage host drivers st") auto
  have "pr_request (syncSupabaseToLocal host drivers t0 t1 remote st) =
      Some (pullRequest host t0 localData)"
    using g by (simp add: syncSupabaseToLocal_def split: fetched.splits prod.splits)
  moreover have "\<exists>p. pr_saved (syncSupabaseToLocal host drivers t0 t1 remote st) = Some p \<and>
      p_fullSyncCompleted p = Some True"
    if "remote (pullRequest host t0 localData) = Resolved sr ar" "rerror sr = None" "rerror ar = None"
    for sr ar
    using g that by (simp add: syncSupabaseToLocal_def pulledData_def Let_def split: prod.splits)
  ultimately show ?thesis
    by (auto simp: pullRequest_def needsFullDownload_def)
qed

text \<open>
  C4 fails on the code, by the defect of C6. On the flat driver, the first pull pass of
  an empty store asks the whole history, both queries answer without error, and the pass
  gives \<open>saveToLocalStorage\<close> an envelope with \<open>fullSyncCompleted: true\<close>; the save
  succeeds and writes no flag. The envelope a load returns afterwards has the flag unset,
  and the next pass asks the whole history again, and so does every pass after it: the
  window of 30 days is never asked for.
\<close>

theorem pull_does_not_persist_fullSyncCompleted:
  "pr_request (syncSupabaseToLocal sampleHost [localStorageDriver sampleHost] 50000 50001
     emptyBackend (freshManager, NoItem)) =
     Some \<lparr>studentsSince = None, attendanceSince = None\<rparr> \<and>
   map_option p_fullSyncCompleted (pr_saved (syncSupabaseToLocal sampleHost
     [localStorageDriver sampleHost] 50000 50001 emptyBackend (freshManager, NoItem))) =
     Some (Some True) \<and>
   pr_storage (syncSupabaseToLocal sampleHost [localStorageDriver sampleHost] 50000 50001
     emptyBackend (freshManager, NoItem)) =
     (managerOn 0 ''localstorage'',
      Parsed \<lparr>p_students = Some [], p_attendanceRecords = Some [], p_documents = Some [],
        p_lastSync = Some ''1970-01-01T00:00:50.001Z'', p_fullSyncCompleted = None\<rparr>) \<and>
   fst (getFromLocalStorage sampleHost [localStorageDriver sampleHost]
     (pr_storage (syncSupabaseToLocal sampleHost [localStorageDriver sampleHost] 50000 50001
        emptyBackend (freshManager, NoItem)))) =
     Inr (emptyData\<lparr>lastSync := Some ''1970-01-01T00:00:50.001Z''\<rparr>) \<and>
   pr_request (syncSupabaseToLocal sampleHost [localStorageDriver sampleHost] 90000 90001
     emptyBackend
     (pr_storage (syncSupabaseToLocal sampleHost [localStorageDriver sampleHost] 50000 50001
        emptyBackend (freshManager, NoItem)))) =
     Some \<lparr>studentsSince = None, attendanceSince = None\<rparr>"
  by code_simp

subsection \<open>Forced sync\<close>

text \<open>
  C5 fails on the code. \<open>forceSync()\<close> calls \<open>performSync()\<close> without the flag, so a
  request one second after the last cycle is throttled like any other; the same call with
  \<open>forceSync = true\<close>, as the polling path makes it, runs the cycle.
\<close>

theorem forceSync_is_throttled:
  "forceSync host drivers push remote 1001000 t0 t1 (\<lparr>lastSyncTime = 1000000\<rparr>, st) =
     (Throttled, \<lparr>lastSyncTime = 1000000\<rparr>, st) \<and>
   fst (performSync host drivers push remote True 1001000 t0 t1 (\<lparr>lastSyncTime = 1000000\<rparr>, st)) = Ran"
  by (simp add: forceSync_def performSync_def split: prod.splits sum.splits option.splits)

subsection \<open>Realtime insert\<close>















subsection \<open>The cooldown\<close>

lemma newest_None: "newest stamps = None \<longleftrightarrow> stamps = []"
proof -
  have "sort_key (\<lambda>t. - t) stamps = [] \<longleftrightarrow> stamps = []"
    by (metis length_sort length_0_conv)
  then show ?thesis
    by (cases "sort_key (\<lambda>t. - t) stamps") (auto simp: newest_def)
qed

lemma newest_Some:
  assumes "newest stamps = Some m"
  shows "m \<in> set stamps \<and> (\<forall>t \<in> set stamps. t \<le> m)"
proof -
  from assms obtain rest where s: "sort_key (\<lambda>t. - t) stamps = m # rest"
    by (auto simp: newest_def split: list.splits)
  have "set (m # rest) = set stamps"
    using s [symmetric] by simp
  moreover have "sorted (map (\<lambda>t. - t) (m # rest))"
    using s [symmetric] by simp
  ultimately show ?thesis by auto
qed

lemma cooldownMessage_prefix: "take 9 (cooldownMessage elapsed) = ''COOLDOWN:''"
  by (simp add: cooldownMessage_def Let_def)

text \<open>
  What \<open>addAttendanceRecord\<close> does with the entries it looks at: the local ones of the
  record's direction whose \<open>studentDatabaseId\<close> or \<open>studentId\<close> is the record's lookup
  identifier, and the server's newest one when online. If one of them is less than 300
  seconds before now, the call throws an error whose message starts with \<open>COOLDOWN:\<close>,
  calls no save and leaves the persisted state as it was. If all of them are 300 seconds
  old or more, it throws nothing, returns a record and calls \<open>saveToLocalStorage\<close>.
\<close>

lemma cooldown_by_lookupIdentifier:
  assumes "fst (getFromLocalStorage host drivers st) = Inr localData"
  shows
   "((\<exists>t \<in> set (allTimes online remoteLast (lookupIdentifier record) (atype record) localData).
        now - t < 300000) \<longrightarrow>
      (\<exists>msg. add_result (addAttendanceRecord host drivers online remoteLast remoteInsert now
           idTime random record st) = Inl (Error msg) \<and> take 9 msg = ''COOLDOWN:'') \<and>
      add_saves (addAttendanceRecord host drivers online remoteLast remoteInsert now idTime
        random record st) = [] \<and>
      snd (add_storage (addAttendanceRecord host drivers online remoteLast remoteInsert now
        idTime random record st)) = snd st) \<and>
    ((\<forall>t \<in> set (allTimes online remoteLast (lookupIdentifier record) (atype record) localData).
        300000 \<le> now - t) \<longrightarrow>
      (\<exists>stored. add_result (addAttendanceRecord host drivers online remoteLast remoteInsert
           now idTime random record st) = Inr stored) \<and>
      add_saves (addAttendanceRecord host drivers online remoteLast remoteInsert now idTime
        random record st) \<noteq> [])"
proof -
  let ?ts = "allTimes online remoteLast (lookupIdentifier record) (atype record) localData"
  let ?R = "addAttendanceRecord host drivers online remoteLast remoteInsert now idTime random
    record st"
  obtain st1 where g: "getFromLocalStorage host drivers st = (Inr localData, st1)"
    using assms by (cases "getFromLocalStorage host drivers st") auto
  have w: "snd st1 = snd st"
    using getFromLocalStorage_world [of host drivers st] g by simp
  obtain localData2 where "fst (getFromLocalStorage host drivers st1) = Inr localData2"
    using getFromLocalStorage_Inr by blast
  then obtain st2 where a: "getFromLocalStorage host drivers st1 = (Inr localData2, st2)"
    by (cases "getFromLocalStorage host drivers st1") auto
  have l: "getLastAttendanceTimestamp host drivers online remoteLast (lookupIdentifier record)
      (atype record) st = (Inr (newest ?ts), st1)"
    using g by (simp add: getLastAttendanceTimestamp_def)
  have 1: "(\<exists>msg. add_result ?R = Inl (Error msg) \<and> take 9 msg = ''COOLDOWN:'') \<and>
      add_saves ?R = [] \<and> snd (add_storage ?R) = snd st"
    if "\<exists>t \<in> set ?ts. now - t < 300000"
  proof -
    from that obtain t where t: "t \<in> set ?ts" "now - t < 300000" by blast
    then have "newest ?ts \<noteq> None"
      by (auto simp: newest_None)
    then obtain m where m: "newest ?ts = Some m" by auto
    from newest_Some [OF m] t have "now - m < 300000" by force
    then have "?R = \<lparr>add_result = Inl (Error (cooldownMessage (now - m))), add_storage = st1,
        add_saves = []\<rparr>"
      using l m by (simp add: addAttendanceRecord_def)
    then show ?thesis
      using w by (simp add: cooldownMessage_prefix)
  qed
  have 2: "(\<exists>stored. add_result ?R = Inr stored) \<and> add_saves ?R \<noteq> []"
    if "\<forall>t \<in> set ?ts. 300000 \<le> now - t"
  proof -
    have "(case newest ?ts of
             Some lastTime \<Rightarrow> if now - lastTime < 300000 then Some (now - lastTime) else None
           | None \<Rightarrow> None) = None"
    proof (cases "newest ?ts")
      case None
      then show ?thesis by simp
    next
      case (Some m)
      from newest_Some [OF Some] that have "300000 \<le> now - m" by blast
      then show ?thesis using Some by simp
    qed
    then show ?thesis
      using l a
      by (auto simp: addAttendanceRecord_def Let_def split: option.splits)
  qed
  show ?thesis
    using 1 2 by blast
qed

text \<open>
  C9 fails on the code. \<open>addAttendanceRecord\<close> looks the student up by
  \<open>studentDatabaseId\<close> alone when the record has one, and the row it inserts has
  \<open>student_database_id\<close> \<open>null\<close> when that identifier is not a UUID. For a student
  registered on this device, the first scan, online, leaves the server's entry in the
  store: \<open>studentId\<close> S123, no \<open>studentDatabaseId\<close>. The second scan of the same student
  and direction, 1.6 seconds later, finds no entry under \<open>local_abc\<close>, in the store or
  on the backend: it is not rejected, and the store then holds both.
\<close>

theorem cooldown_misses_inserted_entry:
  "add_result firstAdd =
     Inr ((sampleEntry sampleUuid ''S123'' 100 None)
       \<lparr>library := Some ''notre-dame'', userType := Some ''student''\<rparr>) \<and>
   fst (getFromLocalStorage sampleHost [localStorageDriver sampleHost] (add_storage firstAdd)) =
     Inr (emptyData\<lparr>attendanceRecords :=
       [(sampleEntry sampleUuid ''S123'' 100 None)
          \<lparr>library := Some ''notre-dame'', userType := Some ''student''\<rparr>]\<rparr>) \<and>
   studentId (localStudentScan 1700) = ''S123'' \<and>
   atype (localStudentScan 1700) = atype (sampleEntry sampleUuid ''S123'' 100 None) \<and>
   add_result secondAdd =
     Inr ((sampleEntry ''123e4567-e89b-12d3-a456-426614174001'' ''S123'' 1700 None)
       \<lparr>library := Some ''notre-dame'', userType := Some ''student''\<rparr>) \<and>
   fst (getFromLocalStorage sampleHost [localStorageDriver sampleHost] (add_storage secondAdd)) =
     Inr (emptyData\<lparr>attendanceRecords :=
       [(sampleEntry sampleUuid ''S123'' 100 None)
          \<lparr>library := Some ''notre-dame'', userType := Some ''student''\<rparr>,
        (sampleEntry ''123e4567-e89b-12d3-a456-426614174001'' ''S123'' 1700 None)
          \<lparr>library := Some ''notre-dame'', userType := Some ''student''\<rparr>]\<rparr>)"
  by code_simp

end
